theory Spec2Isabelle
  imports Complex_Main "HOL-Library.AList"
begin

section \<open>The menu and the filter effect of the Home page\<close>

text \<open>
  The \<^verbatim>\<open>MenuItem\<close> interface of the Home page, field by field. A JavaScript number
  is kept as the rational it denotes (\<open>id\<close> is written \<open>id'\<close>, \<open>image\<close> is
  written \<open>image'\<close>: both names are taken in HOL). The optional field
  \<^verbatim>\<open>cheeseRemovable?: boolean\<close> is an option: \<open>None\<close> when the key is absent.
\<close>

record MenuItem =
  id' :: int
  name :: string
  price :: rat
  image' :: string
  description :: string
  ingredients :: "string list"
  allergens :: "string list"
  tags :: "string list"
  vegetarian :: bool
  vegan :: bool
  halal :: bool
  popular :: bool
  spicy :: bool
  preparationTime :: string
  cheeseRemovable :: "bool option"

text \<open>
  \<^verbatim>\<open>menuData.menu\<close> is a plain object from category key to item array. It is kept as
  the list of its own properties in the object's enumeration order, which is the order
  \<^verbatim>\<open>Object.values\<close> follows; a key occurs once.
\<close>

type_synonym Menu = "(string \<times> MenuItem list) list"

text \<open>
  The state \<^verbatim>\<open>activeFilters\<close>, as \<^verbatim>\<open>useState\<close> declares it. The flags share four
  names with \<open>MenuItem\<close>; the selectors are told apart by their qualified names.
\<close>

record FilterSet =
  vegetarian :: bool
  vegan :: bool
  halal :: bool
  noAllergens :: bool
  popular :: bool
  noCheese :: bool

text \<open>
  The members a plain object inherits from \<^verbatim>\<open>Object.prototype\<close>. A read
  \<^verbatim>\<open>menuData.menu[key]\<close> finds them when \<open>key\<close> is not an own property; each is a
  function or an object, hence truthy and not an array.
\<close>

definition objectPrototypeKeys :: "string list" where
  "objectPrototypeKeys =
     [''constructor'', ''hasOwnProperty'', ''isPrototypeOf'', ''propertyIsEnumerable'',
      ''toLocaleString'', ''toString'', ''valueOf'', ''__proto__'',
      ''__defineGetter__'', ''__defineSetter__'', ''__lookupGetter__'', ''__lookupSetter__'']"

text \<open>
  What the variable \<^verbatim>\<open>items\<close> of the filter effect holds, and what the effect ends
  with: an array of items, a value that is not an array (an inherited member), or the
  \<^verbatim>\<open>TypeError\<close> that \<^verbatim>\<open>items.filter\<close> raises on such a value.
\<close>

datatype jsError = TypeError

datatype shown = Items "MenuItem list" | NonArray | Thrown jsError

text \<open>
  The category step: \<^verbatim>\<open>Object.values(menuData.menu).flat()\<close> for \<^verbatim>\<open>'all'\<close>, otherwise
  \<^verbatim>\<open>menuData.menu[currentCategory] || []\<close>.
\<close>

definition categoryItems :: "Menu \<Rightarrow> string \<Rightarrow> shown" where
  "categoryItems menu currentCategory =
     (if currentCategory = ''all'' then Items (concat (map snd menu))
      else (case map_of menu currentCategory of
              Some xs \<Rightarrow> Items xs
            | None \<Rightarrow> if currentCategory \<in> set objectPrototypeKeys then NonArray else Items []))"

text \<open>One guarded step \<^verbatim>\<open>if (flag) { items = items.filter(p); }\<close>.\<close>

fun filterIf :: "bool \<Rightarrow> (MenuItem \<Rightarrow> bool) \<Rightarrow> shown \<Rightarrow> shown" where
  "filterIf False p items = items"
| "filterIf True p (Items xs) = Items (filter p xs)"
| "filterIf True p NonArray = Thrown TypeError"
| "filterIf True p (Thrown e) = Thrown e"

text \<open>
  The body of the filter effect once the menu is loaded: the value handed to
  \<^verbatim>\<open>setFilteredItems\<close>. The six steps run in the order of the source.
\<close>

definition visibleItems :: "Menu \<Rightarrow> string \<Rightarrow> FilterSet \<Rightarrow> shown" where
  "visibleItems menu currentCategory activeFilters =
     (let items = categoryItems menu currentCategory;
          items = filterIf (FilterSet.vegetarian activeFilters) MenuItem.vegetarian items;
          items = filterIf (FilterSet.vegan activeFilters) MenuItem.vegan items;
          items = filterIf (FilterSet.halal activeFilters) MenuItem.halal items;
          items = filterIf (FilterSet.popular activeFilters) MenuItem.popular items;
          items = filterIf (noAllergens activeFilters) (\<lambda>item. length (allergens item) = 0) items;
          items = filterIf (noCheese activeFilters)
                    (\<lambda>item. ''lait'' \<notin> set (allergens item) \<or> cheeseRemovable item = Some True)
                    items
      in items)"

text \<open>The literal \<^verbatim>\<open>{vegetarian: false, ..., noCheese: false}\<close> that the page writes four times.\<close>

definition noFilters :: FilterSet where
  "noFilters = \<lparr>vegetarian = False, vegan = False, halal = False, noAllergens = False,
                 popular = False, noCheese = False\<rparr>"

section \<open>The reconciler: \<^verbatim>\<open>executeAIActions\<close>\<close>

text \<open>
  The \<^verbatim>\<open>actions\<close> member of the \<^verbatim>\<open>ChatResponse\<close> interface, which the chat endpoint
  declares and the page receives. Every member is optional, so every field is an
  option; \<open>None\<close> is the absent key. The page takes its argument as \<^verbatim>\<open>any\<close>; the
  model of the page covers the actions that conform to the interface.
\<close>

record SetFilters =
  vegetarian :: "bool option"
  vegan :: "bool option"
  halal :: "bool option"
  noCheese :: "bool option"
  noAllergens :: "bool option"
  popular :: "bool option"

record CustomFilters =
  withCheese :: "bool option"
  withMeat :: "bool option"
  spicy :: "bool option"

record ChatActions =
  filterCategory :: "string option"
  setFilters :: "SetFilters option"
  customFilters :: "CustomFilters option"
  recommendedItems :: "int list option"
  showItems :: "int list option"

text \<open>The two pieces of page state that \<^verbatim>\<open>executeAIActions\<close> writes.\<close>

record HomeState =
  currentCategory :: string
  activeFilters :: FilterSet

text \<open>
  The object spread \<^verbatim>\<open>{...prev, ...actions.setFilters}\<close>: a key of the second object
  replaces the key of the first, a key the second object lacks keeps the first one's
  value.
\<close>

definition spread :: "FilterSet \<Rightarrow> SetFilters \<Rightarrow> FilterSet" where
  "spread prev f =
     \<lparr>FilterSet.vegetarian = (case SetFilters.vegetarian f of Some b \<Rightarrow> b | None \<Rightarrow> FilterSet.vegetarian prev),
      FilterSet.vegan = (case SetFilters.vegan f of Some b \<Rightarrow> b | None \<Rightarrow> FilterSet.vegan prev),
      FilterSet.halal = (case SetFilters.halal f of Some b \<Rightarrow> b | None \<Rightarrow> FilterSet.halal prev),
      FilterSet.noAllergens = (case SetFilters.noAllergens f of Some b \<Rightarrow> b | None \<Rightarrow> FilterSet.noAllergens prev),
      FilterSet.popular = (case SetFilters.popular f of Some b \<Rightarrow> b | None \<Rightarrow> FilterSet.popular prev),
      FilterSet.noCheese = (case SetFilters.noCheese f of Some b \<Rightarrow> b | None \<Rightarrow> FilterSet.noCheese prev)\<rparr>"

text \<open>
  A callback handed to \<^verbatim>\<open>setTimeout\<close>. The only one the page schedules is the
  functional update \<^verbatim>\<open>setActiveFilters(prev => ({...prev, ...actions.setFilters}))\<close>,
  which reads the state current when the timer fires.
\<close>

datatype timer = MergeFilters SetFilters

fun fire :: "timer \<Rightarrow> HomeState \<Rightarrow> HomeState" where
  "fire (MergeFilters f) s = s\<lparr>activeFilters := spread (activeFilters s) f\<rparr>"

text \<open>
  JavaScript truthiness of an optional string (\<^verbatim>\<open>if (actions.filterCategory)\<close>) and
  of an optional boolean (\<^verbatim>\<open>if (actions.customFilters.withCheese)\<close>): the absent key
  and the empty string are falsy.
\<close>

fun truthyString :: "string option \<Rightarrow> bool" where
  "truthyString None = False"
| "truthyString (Some s) = (s \<noteq> [])"

fun truthyBool :: "bool option \<Rightarrow> bool" where
  "truthyBool None = False"
| "truthyBool (Some b) = b"

text \<open>
  \<^verbatim>\<open>executeAIActions\<close>: the state after the synchronous part and the timers it has
  scheduled. The state setters are applied in the order they are called. The last two
  branches (\<^verbatim>\<open>recommendedItems\<close>, \<^verbatim>\<open>showItems\<close>) only log.
\<close>

definition executeAIActions :: "ChatActions \<Rightarrow> HomeState \<Rightarrow> HomeState \<times> timer list" where
  "executeAIActions actions s0 =
     (let s1 = (case filterCategory actions of
                  Some c \<Rightarrow> if truthyString (Some c) then s0\<lparr>currentCategory := c\<rparr> else s0
                | None \<Rightarrow> s0);
          (s2, timers) = (case setFilters actions of
                            Some f \<Rightarrow> (s1\<lparr>activeFilters := noFilters\<rparr>, [MergeFilters f])
                          | None \<Rightarrow> (s1, []));
          s3 = (case customFilters actions of
                  Some cf \<Rightarrow>
                    if truthyBool (withCheese cf)
                    then s2\<lparr>activeFilters := noFilters, currentCategory := ''all''\<rparr>
                    else s2
                | None \<Rightarrow> s2)
      in (s3, timers))"

text \<open>
  One reconciliation left alone: the synchronous part, then the scheduled timers in
  order, with no other update of the page in between.
\<close>

definition reconcile :: "ChatActions \<Rightarrow> HomeState \<Rightarrow> HomeState" where
  "reconcile actions s = (case executeAIActions actions s of (s', timers) \<Rightarrow> fold fire timers s')"

section \<open>JavaScript strings: the cleaning steps of the chat endpoint\<close>

text \<open>
  A JavaScript string is kept as a \<open>string\<close>: one \<open>char\<close> per code unit, for texts
  whose code units are below 256. The white space of \<^verbatim>\<open>trim()\<close> and of the regular
  expression class \<^verbatim>\<open>\s\<close> is then tab, line feed, vertical tab, form feed, carriage
  return, space and no-break space.
\<close>

definition isSpace :: "char \<Rightarrow> bool" where
  "isSpace c = (c \<in> set [CHR 0x09, CHR 0x0A, CHR 0x0B, CHR 0x0C, CHR 0x0D, CHR 0x20, CHR 0xA0])"

definition trim :: "string \<Rightarrow> string" where
  "trim s = rev (dropWhile isSpace (rev (dropWhile isSpace s)))"

text \<open>
  \<^verbatim>\<open>s.replace(/^p\s*/, '')\<close> for a literal \<open>p\<close>: when \<open>s\<close> starts with \<open>p\<close>, drop it and
  the white space after it.
\<close>

definition replacePrefix :: "string \<Rightarrow> string \<Rightarrow> string" where
  "replacePrefix p s =
     (if take (length p) s = p then dropWhile isSpace (drop (length p) s) else s)"

text \<open>
  \<^verbatim>\<open>s.replace(/\s*```$/, '')\<close>: when \<open>s\<close> ends with three backticks, drop them and the
  white space before them (the leftmost match takes the whole run).
\<close>

definition replaceTrailingFence :: "string \<Rightarrow> string" where
  "replaceTrailingFence s =
     (if 3 \<le> length s \<and> drop (length s - 3) s = ''```''
      then rev (dropWhile isSpace (rev (take (length s - 3) s)))
      else s)"

text \<open>\<^verbatim>\<open>s.replace(/^\s*```\s*/, '')\<close>.\<close>

definition replaceLeadingFence :: "string \<Rightarrow> string" where
  "replaceLeadingFence s =
     (let t = dropWhile isSpace s
      in if take 3 t = ''```'' then dropWhile isSpace (drop 3 t) else s)"

text \<open>
  \<^verbatim>\<open>indexOf\<close> and \<^verbatim>\<open>lastIndexOf\<close> of a one-character pattern (\<open>-1\<close> when it does not
  occur), and \<^verbatim>\<open>substring(start, end)\<close>, which clamps both arguments to the string
  and swaps them when the first is the larger.
\<close>

definition indexOf :: "string \<Rightarrow> char \<Rightarrow> int" where
  "indexOf s c = (if c \<in> set s then int (length (takeWhile (\<lambda>x. x \<noteq> c) s)) else - 1)"

definition lastIndexOf :: "string \<Rightarrow> char \<Rightarrow> int" where
  "lastIndexOf s c =
     (if c \<in> set s then int (length s) - 1 - int (length (takeWhile (\<lambda>x. x \<noteq> c) (rev s)))
      else - 1)"

definition substring :: "string \<Rightarrow> int \<Rightarrow> int \<Rightarrow> string" where
  "substring s start end' =
     (let n = int (length s);
          a = max 0 (min start n);
          b = max 0 (min end' n);
          lo = min a b;
          hi = max a b
      in take (nat (hi - lo)) (drop (nat lo) s))"

text \<open>
  The first half of the \<^verbatim>\<open>try\<close> block: \<^verbatim>\<open>trim()\<close> and the five \<^verbatim>\<open>replace\<close> calls,
  in order.
\<close>

definition stripNoise :: "string \<Rightarrow> string" where
  "stripNoise assistantResponse =
     (let cleanedResponse = trim assistantResponse;
          cleanedResponse = replacePrefix ''```json'' cleanedResponse;
          cleanedResponse = replaceTrailingFence cleanedResponse;
          cleanedResponse = replacePrefix ''json'' cleanedResponse;
          cleanedResponse = replacePrefix (CHR 0x22 # ''json'') cleanedResponse;
          cleanedResponse = replaceLeadingFence cleanedResponse
      in cleanedResponse)"

text \<open>The second half: the brace span, the text handed to \<^verbatim>\<open>JSON.parse\<close>.\<close>

definition sliceBraces :: "string \<Rightarrow> string" where
  "sliceBraces cleanedResponse =
     (let firstBrace = indexOf cleanedResponse CHR ''{'';
          lastBrace = lastIndexOf cleanedResponse CHR ''}''
      in if firstBrace \<noteq> - 1 \<and> lastBrace \<noteq> - 1 \<and> firstBrace < lastBrace
         then substring cleanedResponse firstBrace (lastBrace + 1)
         else cleanedResponse)"

section \<open>JSON values and the reply of the chat endpoint\<close>

text \<open>
  What \<^verbatim>\<open>JSON.parse\<close> returns. An object is the list of its own properties, a key
  occurring once; a number is the rational that the double denotes. The JavaScript
  value \<^verbatim>\<open>undefined\<close> is not a JSON value: a read that may yield it returns an option.
\<close>

datatype json =
    JNull
  | JBool bool
  | JNum rat
  | JStr string
  | JArr "json list"
  | JObj "(string \<times> json) list"

type_synonym jsObject = "(string \<times> json) list"

text \<open>Truthiness, as \<^verbatim>\<open>if (v)\<close> tests it.\<close>

fun truthy :: "json \<Rightarrow> bool" where
  "truthy JNull = False"
| "truthy (JBool b) = b"
| "truthy (JNum r) = (r \<noteq> 0)"
| "truthy (JStr s) = (s \<noteq> [])"
| "truthy (JArr xs) = True"
| "truthy (JObj kvs) = True"

text \<open>
  The read \<^verbatim>\<open>v.k\<close> for the names the endpoint reads (\<^verbatim>\<open>actions\<close>, \<^verbatim>\<open>response\<close>,
  \<^verbatim>\<open>category\<close>, \<^verbatim>\<open>filters\<close>, \<^verbatim>\<open>customFilters\<close>, \<^verbatim>\<open>recommendedItems\<close>): on \<^verbatim>\<open>null\<close>
  it raises a \<^verbatim>\<open>TypeError\<close>, on an object it is the own property or \<^verbatim>\<open>undefined\<close>,
  on a boolean, a number, a string or an array it is \<^verbatim>\<open>undefined\<close>, since none of
  these names is a member of their prototypes.
\<close>

fun getProp :: "json \<Rightarrow> string \<Rightarrow> jsError + json option" where
  "getProp JNull k = Inl TypeError"
| "getProp (JObj kvs) k = Inr (map_of kvs k)"
| "getProp (JBool b) k = Inr None"
| "getProp (JNum r) k = Inr None"
| "getProp (JStr s) k = Inr None"
| "getProp (JArr xs) k = Inr None"

text \<open>Sequencing of steps that may raise: the first error ends the block.\<close>

definition bindE :: "'e + 'a \<Rightarrow> ('a \<Rightarrow> 'e + 'b) \<Rightarrow> 'e + 'b" where
  "bindE m f = (case m of Inl e \<Rightarrow> Inl e | Inr x \<Rightarrow> f x)"

text \<open>
  One copying step \<^verbatim>\<open>if (src.k) { actions.k' = src.k; }\<close>. An assignment to a new key
  appends the property, an assignment to an existing key replaces its value.
\<close>

definition copyIfTruthy :: "json \<Rightarrow> string \<Rightarrow> string \<Rightarrow> jsObject \<Rightarrow> jsError + jsObject" where
  "copyIfTruthy src k k' actions =
     bindE (getProp src k)
       (\<lambda>v. case v of
               None \<Rightarrow> Inr actions
             | Some x \<Rightarrow> Inr (if truthy x then AList.update k' x actions else actions))"

text \<open>
  The construction of \<^verbatim>\<open>actions\<close> from the decoded value: it starts as the empty
  object and receives up to four keys. The read of \<^verbatim>\<open>reasoning\<close> only logs.
\<close>

definition buildActions :: "json \<Rightarrow> jsError + jsObject" where
  "buildActions parsedResponse =
     bindE (getProp parsedResponse ''actions'')
       (\<lambda>a. case a of
               None \<Rightarrow> Inr []
             | Some pa \<Rightarrow>
                 if truthy pa
                 then bindE (copyIfTruthy pa ''category'' ''filterCategory'' [])
                   (\<lambda>actions. bindE (copyIfTruthy pa ''filters'' ''setFilters'' actions)
                   (\<lambda>actions. bindE (copyIfTruthy pa ''customFilters'' ''customFilters'' actions)
                   (\<lambda>actions. copyIfTruthy pa ''recommendedItems'' ''recommendedItems'' actions)))
                 else Inr [])"

text \<open>
  The body sent with \<^verbatim>\<open>res.status(200).json\<close>: a key whose value is \<^verbatim>\<open>undefined\<close> is
  left out of the JSON text, so both fields are options. The interface declares
  \<^verbatim>\<open>response: string\<close>, but the endpoint stores there whatever the decoded value holds.
\<close>

record ChatResponse =
  response :: "json option"
  actions :: "jsObject option"

text \<open>
  What the endpoint answers: a body with status 200, or a status and the \<^verbatim>\<open>error\<close>
  text of an \<^verbatim>\<open>ErrorResponse\<close> (its \<^verbatim>\<open>details\<close> text is not kept).
\<close>

datatype 'a reply = Success 'a | Failure nat string

text \<open>
  The chat endpoint from the \<^verbatim>\<open>try\<close> block that decodes \<^verbatim>\<open>assistantResponse\<close> to its
  end. \<^verbatim>\<open>JSON.parse\<close> belongs to the platform and is a parameter: \<open>None\<close> stands for the
  \<^verbatim>\<open>SyntaxError\<close> it raises, which the inner \<^verbatim>\<open>catch\<close> turns into the text-only answer
  \<open>fallback\<close>. \<open>buildReply\<close> is the code after the block; a \<^verbatim>\<open>TypeError\<close> raised there
  reaches the outer \<^verbatim>\<open>catch\<close>, which answers 500.
\<close>

definition fallback :: "string \<Rightarrow> ChatResponse reply" where
  "fallback assistantResponse =
     Success \<lparr>response = Some (JStr assistantResponse), actions = None\<rparr>"

definition buildReply :: "json \<Rightarrow> ChatResponse reply" where
  "buildReply parsedResponse =
     (case bindE (buildActions parsedResponse)
             (\<lambda>actions. bindE (getProp parsedResponse ''response'')
             (\<lambda>r. Inr \<lparr>response = r,
                        actions = (if length actions > 0 then Some actions else None)\<rparr>)) of
        Inl e \<Rightarrow> Failure 500 ''Erreur interne du serveur''
      | Inr body \<Rightarrow> Success body)"

definition parseReply :: "(string \<Rightarrow> json option) \<Rightarrow> string \<Rightarrow> ChatResponse reply" where
  "parseReply JSON_parse assistantResponse =
     (case JSON_parse (sliceBraces (stripNoise assistantResponse)) of
        None \<Rightarrow> fallback assistantResponse
      | Some parsedResponse \<Rightarrow> buildReply parsedResponse)"

text \<open>
  The guard before the block: \<^verbatim>\<open>assistantResponse\<close> is the content of the first choice
  of the model, and an absent or empty content is answered with 500 before any parsing
  (\<open>0xE9\<close> is e acute).
\<close>

definition chatReply :: "(string \<Rightarrow> json option) \<Rightarrow> string option \<Rightarrow> ChatResponse reply" where
  "chatReply JSON_parse assistantResponse =
     (case assistantResponse of
        None \<Rightarrow> Failure 500 (''R'' @ [CHR 0xE9] @ ''ponse IA vide'')
      | Some content \<Rightarrow>
          if content = [] then Failure 500 (''R'' @ [CHR 0xE9] @ ''ponse IA vide'')
          else parseReply JSON_parse content)"

section \<open>A reference JSON decoder\<close>

text \<open>
  \<^verbatim>\<open>JSON.parse\<close> itself is not part of the repository. For closed examples the
  development uses the reference decoder below, written after the JSON grammar
  (ECMA-404): white space is space, tab, line feed and carriage return; a string has no
  raw control character and knows the escapes \<^verbatim>\<open>\" \\ \/ \b \f \n \r \t \uXXXX\<close>; a
  number is \<^verbatim>\<open>-? (0 | [1-9][0-9]*) (. [0-9]+)? ([eE] [+-]? [0-9]+)?\<close>; a repeated key keeps
  its first position and its last value; nothing but white space may follow the value.
  Two limits of the model: an escape \<^verbatim>\<open>\uXXXX\<close> above \<^verbatim>\<open>00FF\<close> names a code unit
  outside \<open>char\<close> and is refused, and a number is read exactly, where the platform
  rounds to a double.
\<close>

definition isJsonSpace :: "char \<Rightarrow> bool" where
  "isJsonSpace c = (c \<in> set [CHR 0x20, CHR 0x09, CHR 0x0A, CHR 0x0D])"

definition isDigit :: "char \<Rightarrow> bool" where
  "isDigit c = (48 \<le> (of_char c :: nat) \<and> (of_char c :: nat) \<le> 57)"

definition digits :: "string \<Rightarrow> nat" where
  "digits ds = foldl (\<lambda>n c. 10 * n + (of_char c - 48)) 0 ds"

definition hexDigit :: "char \<Rightarrow> nat option" where
  "hexDigit c =
     (let n = (of_char c :: nat)
      in if 48 \<le> n \<and> n \<le> 57 then Some (n - 48)
         else if 65 \<le> n \<and> n \<le> 70 then Some (n - 55)
         else if 97 \<le> n \<and> n \<le> 102 then Some (n - 87)
         else None)"

definition escapeChar :: "char \<Rightarrow> char option" where
  "escapeChar e =
     (if e = CHR 0x22 then Some (CHR 0x22)
      else if e = CHR 0x5C then Some (CHR 0x5C)
      else if e = CHR ''/'' then Some (CHR ''/'')
      else if e = CHR ''b'' then Some (CHR 0x08)
      else if e = CHR ''f'' then Some (CHR 0x0C)
      else if e = CHR ''n'' then Some (CHR 0x0A)
      else if e = CHR ''r'' then Some (CHR 0x0D)
      else if e = CHR ''t'' then Some (CHR 0x09)
      else None)"

text \<open>The rest of a string after its opening quote: the decoded text and what follows.\<close>

fun parseString :: "string \<Rightarrow> string \<Rightarrow> (string \<times> string) option" where
  "parseString acc [] = None"
| "parseString acc [c] = (if c = CHR 0x22 then Some (rev acc, []) else None)"
| "parseString acc (c # e # cs) =
     (if c = CHR 0x22 then Some (rev acc, e # cs)
      else if c = CHR 0x5C then
        (if e = CHR ''u'' then
           (case cs of
              h1 # h2 # h3 # h4 # rest \<Rightarrow>
                (case (hexDigit h1, hexDigit h2, hexDigit h3, hexDigit h4) of
                   (Some a, Some b, Some c', Some d) \<Rightarrow>
                     (if a = 0 \<and> b = 0 then parseString (char_of (16 * c' + d) # acc) rest
                      else None)
                 | _ \<Rightarrow> None)
            | _ \<Rightarrow> None)
         else (case escapeChar e of
                 Some x \<Rightarrow> parseString (x # acc) cs
               | None \<Rightarrow> None))
      else if (of_char c :: nat) < 32 then None
      else parseString (c # acc) (e # cs))"

definition parseNumber :: "string \<Rightarrow> (rat \<times> string) option" where
  "parseNumber s =
     (let (neg, s1) = (case s of [] \<Rightarrow> (False, s) | c # r \<Rightarrow> if c = CHR ''-'' then (True, r) else (False, s));
          ip = (case s1 of [] \<Rightarrow> [] | c # r \<Rightarrow> if c = CHR ''0'' then [c] else takeWhile isDigit s1);
          s2 = drop (length ip) s1;
          (fp, s3) = (case s2 of
                        [] \<Rightarrow> (Some [], s2)
                      | c # r \<Rightarrow>
                          if c = CHR ''.''
                          then (if takeWhile isDigit r = [] then (None, s2)
                                else (Some (takeWhile isDigit r), dropWhile isDigit r))
                          else (Some [], s2));
          (ex, s4) = (case s3 of
                        [] \<Rightarrow> (Some (0::int), s3)
                      | c # r \<Rightarrow>
                          if c = CHR ''e'' \<or> c = CHR ''E''
                          then (let (eneg, r') = (case r of
                                                    [] \<Rightarrow> (False, r)
                                                  | g # r2 \<Rightarrow> if g = CHR ''-'' then (True, r2)
                                                             else if g = CHR ''+'' then (False, r2)
                                                             else (False, r))
                                in if takeWhile isDigit r' = [] then (None, s3)
                                   else (Some ((if eneg then - 1 else 1) * int (digits (takeWhile isDigit r'))),
                                         dropWhile isDigit r'))
                          else (Some 0, s3))
      in case (fp, ex) of
           (Some f, Some e) \<Rightarrow>
             if ip = [] then None
             else let m = (of_nat (digits (ip @ f)) :: rat) / 10 ^ length f;
                      v = (if 0 \<le> e then m * 10 ^ nat e else m / 10 ^ nat (- e))
                  in Some (if neg then - v else v, s4)
         | _ \<Rightarrow> None)"

text \<open>
  Recursive descent. The first argument is fuel: a call on a nested value, on the next
  member or on the next element lowers it by one, and \<open>JSON_parse\<close> starts with one more
  than the length of the text.
\<close>

fun parseValue :: "nat \<Rightarrow> string \<Rightarrow> (json \<times> string) option"
  and parseMembers :: "nat \<Rightarrow> jsObject \<Rightarrow> string \<Rightarrow> (json \<times> string) option"
  and parseElements :: "nat \<Rightarrow> json list \<Rightarrow> string \<Rightarrow> (json \<times> string) option" where
  "parseValue 0 s = None"
| "parseValue (Suc n) s =
     (case dropWhile isJsonSpace s of
        [] \<Rightarrow> None
      | c # r \<Rightarrow>
          if c = CHR ''{'' then
            (case dropWhile isJsonSpace r of
               [] \<Rightarrow> None
             | d # r' \<Rightarrow> if d = CHR ''}'' then Some (JObj [], r') else parseMembers n [] (d # r'))
          else if c = CHR ''['' then
            (case dropWhile isJsonSpace r of
               [] \<Rightarrow> None
             | d # r' \<Rightarrow> if d = CHR '']'' then Some (JArr [], r') else parseElements n [] (d # r'))
          else if c = CHR 0x22 then
            (case parseString [] r of None \<Rightarrow> None | Some (str, r') \<Rightarrow> Some (JStr str, r'))
          else if take 4 (c # r) = ''true'' then Some (JBool True, drop 4 (c # r))
          else if take 5 (c # r) = ''false'' then Some (JBool False, drop 5 (c # r))
          else if take 4 (c # r) = ''null'' then Some (JNull, drop 4 (c # r))
          else (case parseNumber (c # r) of None \<Rightarrow> None | Some (x, r') \<Rightarrow> Some (JNum x, r')))"
| "parseMembers 0 acc s = None"
| "parseMembers (Suc n) acc s =
     (case dropWhile isJsonSpace s of
        [] \<Rightarrow> None
      | q # r \<Rightarrow>
          if q \<noteq> CHR 0x22 then None
          else (case parseString [] r of
                  None \<Rightarrow> None
                | Some (k, r1) \<Rightarrow>
                    (case dropWhile isJsonSpace r1 of
                       [] \<Rightarrow> None
                     | c # r2 \<Rightarrow>
                         if c \<noteq> CHR '':'' then None
                         else (case parseValue n r2 of
                                 None \<Rightarrow> None
                               | Some (v, r3) \<Rightarrow>
                                   (case dropWhile isJsonSpace r3 of
                                      [] \<Rightarrow> None
                                    | d # r4 \<Rightarrow>
                                        if d = CHR '','' then parseMembers n (AList.update k v acc) r4
                                        else if d = CHR ''}'' then Some (JObj (AList.update k v acc), r4)
                                        else None)))))"
| "parseElements 0 acc s = None"
| "parseElements (Suc n) acc s =
     (case parseValue n s of
        None \<Rightarrow> None
      | Some (v, r) \<Rightarrow>
          (case dropWhile isJsonSpace r of
             [] \<Rightarrow> None
           | d # r' \<Rightarrow>
               if d = CHR '','' then parseElements n (acc @ [v]) r'
               else if d = CHR '']'' then Some (JArr (acc @ [v]), r')
               else None))"

definition JSON_parse :: "string \<Rightarrow> json option" where
  "JSON_parse text =
     (case parseValue (Suc (length text)) text of
        None \<Rightarrow> None
      | Some (v, r) \<Rightarrow> if dropWhile isJsonSpace r = [] then Some v else None)"

section \<open>The transcription endpoint\<close>

text \<open>
  The \<^verbatim>\<open>WhisperResponse\<close> and \<^verbatim>\<open>TranscribeResponse\<close> interfaces (\<open>text\<close> is written
  \<open>text'\<close>; the \<^verbatim>\<open>segments\<close> of the former are never read). The body of the Whisper
  API is cast to \<^verbatim>\<open>WhisperResponse\<close> unchecked and the endpoint tests \<^verbatim>\<open>!transcription.text\<close>,
  so the text of the former is an option: \<open>None\<close> when the body has no such member.
\<close>

record WhisperResponse =
  text' :: "string option"
  language :: "string option"
  confidence :: "rat option"

record TranscribeResponse =
  text' :: string
  language :: "string option"
  confidence :: "rat option"

text \<open>
  What \<^verbatim>\<open>await fetch(...)\<close> to the Whisper API brings: a rejection with the message of
  the error (if it has one), or a response with its \<^verbatim>\<open>ok\<close> flag and status. The body of
  a response cannot be read at all (\<^verbatim>\<open>text()\<close> and \<^verbatim>\<open>json()\<close> both reject), or is a
  text that is not JSON (\<^verbatim>\<open>json()\<close> rejects), or decodes to a transcription.
\<close>

datatype whisperBody =
    Unreadable "string option"
  | NotJson "string option"
  | Transcription WhisperResponse

record WhisperHttp =
  ok :: bool
  status :: nat
  body :: whisperBody

datatype fetched = Rejects "string option" | Responds WhisperHttp

text \<open>\<^verbatim>\<open>s.includes(p)\<close>: \<open>p\<close> occurs in \<open>s\<close>.\<close>

fun includes' :: "string \<Rightarrow> string \<Rightarrow> bool" where
  "includes' [] p = (p = [])"
| "includes' (c # cs) p = (take (length p) (c # cs) = p \<or> includes' cs p)"

text \<open>The \<^verbatim>\<open>catch\<close> block of the endpoint, on the \<^verbatim>\<open>message\<close> of the error caught.\<close>

definition transcribeCatch :: "string option \<Rightarrow> TranscribeResponse reply" where
  "transcribeCatch message =
     (case message of
        None \<Rightarrow> Failure 500 ''Erreur interne du serveur''
      | Some m \<Rightarrow>
          if includes' m ''ENOENT'' then Failure 500 ''Erreur de fichier temporaire''
          else if includes' m ''fetch'' then Failure 503 ''Service temporairement indisponible''
          else Failure 500 ''Erreur interne du serveur'')"

text \<open>The \<^verbatim>\<open>error\<close> text of the answer for an audio without speech (\<open>0xE9\<close> is e acute).\<close>

definition noSpeechDetected :: string where
  "noSpeechDetected = ''Aucun texte d'' @ [CHR 0xE9] @ ''tect'' @ [CHR 0xE9]"

text \<open>
  The endpoint from the call of the Whisper API on. \<open>browserLang\<close> is the language read
  from the \<^verbatim>\<open>accept-language\<close> header, absent when there is none.
\<close>

definition transcribeReply :: "string option \<Rightarrow> fetched \<Rightarrow> TranscribeResponse reply" where
  "transcribeReply browserLang whisperResponse =
     (case whisperResponse of
        Rejects message \<Rightarrow> transcribeCatch message
      | Responds r \<Rightarrow>
          if \<not> ok r then
            (case body r of
               Unreadable message \<Rightarrow> transcribeCatch message
             | _ \<Rightarrow> Failure (status r) ''Erreur lors de la transcription'')
          else
            (case body r of
               Unreadable message \<Rightarrow> transcribeCatch message
             | NotJson message \<Rightarrow> transcribeCatch message
             | Transcription transcription \<Rightarrow>
                 (case WhisperResponse.text' transcription of
                    None \<Rightarrow> Failure 400 noSpeechDetected
                  | Some t \<Rightarrow>
                      if t = [] \<or> trim t = [] then Failure 400 noSpeechDetected
                      else Success
                        \<lparr>TranscribeResponse.text' = trim t,
                         TranscribeResponse.language =
                           (if truthyString (WhisperResponse.language transcription)
                            then WhisperResponse.language transcription else browserLang),
                         TranscribeResponse.confidence =
                           (case WhisperResponse.confidence transcription of
                              None \<Rightarrow> None
                            | Some c \<Rightarrow> if c \<noteq> 0 then Some c else None)\<rparr>)))"

section \<open>Vocabulary of the statements and example data\<close>

text \<open>
  \<open>truthyField v k\<close> is the value of \<^verbatim>\<open>v.k\<close> when the read succeeds and the value is
  truthy: the condition of every \<^verbatim>\<open>if (v.k)\<close> of the chat endpoint. It is used to state
  what the endpoint copies, not to define the endpoint.
\<close>

definition truthyField :: "json \<Rightarrow> string \<Rightarrow> json option" where
  "truthyField v k =
     (case getProp v k of
        Inr (Some x) \<Rightarrow> if truthy x then Some x else None
      | _ \<Rightarrow> None)"

text \<open>
  A small menu in the shape of \<^verbatim>\<open>/data/menu.json\<close>: two pizzas and two pasta dishes.
  Three of them list the allergen \<^verbatim>\<open>lait\<close>; only the first can be served without
  cheese.
\<close>

definition margherita :: MenuItem where
  "margherita =
     \<lparr>id' = 1, name = ''Pizza Margherita'', price = 12, image' = ''/images/margherita.jpg'',
      description = ''Tomate, mozzarella, basilic'',
      ingredients = [''tomate'', ''mozzarella'', ''basilic''],
      allergens = [''gluten'', ''lait''], tags = [''classique''],
      MenuItem.vegetarian = True, MenuItem.vegan = False, MenuItem.halal = True,
      MenuItem.popular = True, MenuItem.spicy = False, preparationTime = ''15 min'',
      cheeseRemovable = Some True\<rparr>"

definition quatreFromages :: MenuItem where
  "quatreFromages =
     \<lparr>id' = 2, name = ''Pizza Quatre Fromages'', price = 14, image' = ''/images/fromages.jpg'',
      description = ''Quatre fromages'',
      ingredients = [''mozzarella'', ''gorgonzola'', ''parmesan'', ''ch'' @ [CHR 0xE8] @ ''vre''],
      allergens = [''gluten'', ''lait''], tags = [],
      MenuItem.vegetarian = True, MenuItem.vegan = False, MenuItem.halal = True,
      MenuItem.popular = False, MenuItem.spicy = False, preparationTime = ''15 min'',
      cheeseRemovable = None\<rparr>"

definition arrabbiata :: MenuItem where
  "arrabbiata =
     \<lparr>id' = 3, name = ''Penne Arrabbiata'', price = 11, image' = ''/images/arrabbiata.jpg'',
      description = ''Sauce tomate piment'',
      ingredients = [''penne'', ''tomate'', ''piment''],
      allergens = [''gluten''], tags = [],
      MenuItem.vegetarian = True, MenuItem.vegan = True, MenuItem.halal = True,
      MenuItem.popular = False, MenuItem.spicy = True, preparationTime = ''12 min'',
      cheeseRemovable = None\<rparr>"

definition carbonara :: MenuItem where
  "carbonara =
     \<lparr>id' = 4, name = ''Spaghetti Carbonara'', price = 13, image' = ''/images/carbonara.jpg'',
      description = ''Lardons, oeuf, parmesan'',
      ingredients = [''spaghetti'', ''lardons'', ''oeuf'', ''parmesan''],
      allergens = [''gluten'', ''lait'', ''oeufs''], tags = [],
      MenuItem.vegetarian = False, MenuItem.vegan = False, MenuItem.halal = False,
      MenuItem.popular = False, MenuItem.spicy = False, preparationTime = ''14 min'',
      cheeseRemovable = Some False\<rparr>"

definition exampleMenu :: Menu where
  "exampleMenu = [(''pizzas'', [margherita, quatreFromages]), (''pates'', [arrabbiata, carbonara])]"

text \<open>A page state whose filters hold \<^verbatim>\<open>vegan = true\<close>, and actions with every key absent.\<close>

definition veganState :: HomeState where
  "veganState =
     \<lparr>currentCategory = ''pizzas'', activeFilters = noFilters\<lparr>FilterSet.vegan := True\<rparr>\<rparr>"

definition noSetFilters :: SetFilters where
  "noSetFilters =
     \<lparr>SetFilters.vegetarian = None, SetFilters.vegan = None, SetFilters.halal = None,
      SetFilters.noCheese = None, SetFilters.noAllergens = None, SetFilters.popular = None\<rparr>"

definition noCustomFilters :: CustomFilters where
  "noCustomFilters = \<lparr>withCheese = None, withMeat = None, CustomFilters.spicy = None\<rparr>"

definition noActions :: ChatActions where
  "noActions =
     \<lparr>filterCategory = None, setFilters = None, customFilters = None,
      recommendedItems = None, showItems = None\<rparr>"

text \<open>
  \<open>copied pa\<close> is the object that the four copying steps build from the decoded
  \<^verbatim>\<open>actions\<close> value \<open>pa\<close>, written as one expression.
\<close>

definition copied :: "json \<Rightarrow> jsObject" where
  "copied pa =
     (case truthyField pa ''recommendedItems'' of None \<Rightarrow> id | Some x \<Rightarrow> AList.update ''recommendedItems'' x)
     ((case truthyField pa ''customFilters'' of None \<Rightarrow> id | Some x \<Rightarrow> AList.update ''customFilters'' x)
     ((case truthyField pa ''filters'' of None \<Rightarrow> id | Some x \<Rightarrow> AList.update ''setFilters'' x)
     ((case truthyField pa ''category'' of None \<Rightarrow> id | Some x \<Rightarrow> AList.update ''filterCategory'' x) [])))"

text \<open>Model responses used as examples.\<close>

definition unbalancedText :: string where
  \<open>unbalancedText = ''{"response": "oops''\<close>

definition proseText :: string where
  \<open>proseText = ''Here you go: {"response":"ok","actions":{"category":"pizzas"}} Enjoy!''\<close>

definition quotedText :: string where
  \<open>quotedText = ''"a{b"''\<close>

definition noResponseText :: string where
  \<open>noResponseText = ''{"actions":{"category":"pizzas"}}''\<close>

definition numberResponseText :: string where
  \<open>numberResponseText = ''{"response":42}''\<close>

definition nullText :: string where
  \<open>nullText = ''null''\<close>

definition showItemsText :: string where
  \<open>showItemsText = ''{"response":"ok","actions":{"category":"pizzas","showItems":[1,2]}}''\<close>

definition onlyShowItemsText :: string where
  \<open>onlyShowItemsText = ''{"response":"ok","actions":{"showItems":[1,2]}}''\<close>

text \<open>Answers of the Whisper API used as examples.\<close>

definition silence :: WhisperHttp where
  "silence =
     \<lparr>ok = True, status = 200,
      body = Transcription \<lparr>WhisperResponse.text' = Some ''   '', WhisperResponse.language = Some ''fr'',
                             WhisperResponse.confidence = None\<rparr>\<rparr>"

definition rateLimited :: WhisperHttp where
  "rateLimited = \<lparr>ok = False, status = 429, body = NotJson None\<rparr>"

definition bonjour :: WhisperHttp where
  "bonjour =
     \<lparr>ok = True, status = 200,
      body = Transcription \<lparr>WhisperResponse.text' = Some '' Bonjour '', WhisperResponse.language = None,
                             WhisperResponse.confidence = None\<rparr>\<rparr>"

section \<open>Properties of the filter effect\<close>

lemma filterIf_Items [simp]: "filterIf b p (Items xs) = Items (if b then filter p xs else xs)"
  by (cases b) simp_all

lemma visibleItems_noCheese_step:
  "visibleItems menu c (fs\<lparr>FilterSet.noCheese := b\<rparr>) =
     filterIf b (\<lambda>item. ''lait'' \<notin> set (allergens item) \<or> cheeseRemovable item = Some True)
       (visibleItems menu c (fs\<lparr>FilterSet.noCheese := False\<rparr>))"
  by (simp add: visibleItems_def Let_def)

lemma exampleMenu_all:
  "visibleItems exampleMenu ''all'' (noFilters\<lparr>FilterSet.noCheese := False\<rparr>) =
     Items [margherita, quatreFromages, arrabbiata, carbonara]"
  by (simp add: visibleItems_def categoryItems_def noFilters_def exampleMenu_def)

text \<open>
  C6. With \<^verbatim>\<open>noCheese\<close> set, the effect keeps, of the items that pass the category and
  the other five flags, exactly those that do not list the allergen \<^verbatim>\<open>lait\<close> or have
  \<^verbatim>\<open>cheeseRemovable === true\<close>, in the same order: an item with \<^verbatim>\<open>lait\<close> that can be
  served without cheese stays, an item with \<^verbatim>\<open>lait\<close> whose \<^verbatim>\<open>cheeseRemovable\<close> is
  absent or false goes.
\<close>

theorem noCheese_keeps_removable:
  assumes "visibleItems menu c (fs\<lparr>FilterSet.noCheese := False\<rparr>) = Items xs"
  shows "\<exists>ys. visibleItems menu c (fs\<lparr>FilterSet.noCheese := True\<rparr>) = Items ys \<and>
           ys = filter (\<lambda>item. ''lait'' \<notin> set (allergens item) \<or> cheeseRemovable item = Some True) xs \<and>
           (\<forall>item \<in> set xs. ''lait'' \<in> set (allergens item) \<and> cheeseRemovable item = Some True
                \<longrightarrow> item \<in> set ys) \<and>
           (\<forall>item \<in> set xs. ''lait'' \<in> set (allergens item) \<and> cheeseRemovable item \<noteq> Some True
                \<longrightarrow> item \<notin> set ys)"
  using assms visibleItems_noCheese_step [where b = True and menu = menu and c = c and fs = fs]
  by simp

text \<open>
  On the example menu: the Margherita (\<^verbatim>\<open>lait\<close>, removable) and the Arrabbiata (no
  \<^verbatim>\<open>lait\<close>) stay; the Quatre Fromages (flag absent) and the Carbonara (flag false) go.
\<close>

theorem noCheese_keeps_removable_witness:
  "visibleItems exampleMenu ''all'' (noFilters\<lparr>FilterSet.noCheese := False\<rparr>) =
     Items [margherita, quatreFromages, arrabbiata, carbonara] \<and>
   visibleItems exampleMenu ''all'' (noFilters\<lparr>FilterSet.noCheese := True\<rparr>) =
     Items [margherita, arrabbiata]"
proof -
  from noCheese_keeps_removable [OF exampleMenu_all]
  have "visibleItems exampleMenu ''all'' (noFilters\<lparr>FilterSet.noCheese := True\<rparr>) =
     Items [margherita, arrabbiata]"
    by (simp add: margherita_def quatreFromages_def arrabbiata_def carbonara_def)
  with exampleMenu_all show ?thesis by simp
qed

text \<open>
  C7. With the category \<^verbatim>\<open>'all'\<close> and every flag false the effect shows the whole
  catalog: the concatenation of the categories' item arrays in the menu's enumeration
  order, so each item occurs as often as the categories list it, neither dropped nor
  repeated.
\<close>

theorem visibleItems_all_noFilters:
  "visibleItems menu ''all'' noFilters = Items (concat (map snd menu))"
  by (simp add: visibleItems_def categoryItems_def noFilters_def)

theorem visibleItems_all_noFilters_witness:
  "visibleItems exampleMenu ''all'' noFilters =
     Items [margherita, quatreFromages, arrabbiata, carbonara]"
  using visibleItems_all_noFilters [of exampleMenu] by (simp add: exampleMenu_def)

section \<open>Properties of the reconciler\<close>

lemma truthyBool_iff [simp]: "truthyBool x \<longleftrightarrow> x = Some True"
  by (cases x) auto

lemma reconcile_setFilters:
  "setFilters a = Some f \<Longrightarrow> activeFilters (reconcile a s) = spread noFilters f"
  by (simp add: reconcile_def executeAIActions_def Let_def spread_def noFilters_def
           split: option.splits)

text \<open>
  C1. When the action has a \<^verbatim>\<open>setFilters\<close> object, the filters after the reconciliation
  are the all-false set overlaid with the keys of that object: a key it holds has the
  object's value, a key it lacks is false, whatever the filters, the category and the
  other members of the action were.
\<close>

theorem reconcile_filters_reset_then_merge:
  assumes "setFilters a = Some f"
  shows "activeFilters (reconcile a s) = spread noFilters f \<and>
         (SetFilters.vegetarian f = None \<longrightarrow> \<not> FilterSet.vegetarian (activeFilters (reconcile a s))) \<and>
         (SetFilters.vegan f = None \<longrightarrow> \<not> FilterSet.vegan (activeFilters (reconcile a s))) \<and>
         (SetFilters.halal f = None \<longrightarrow> \<not> FilterSet.halal (activeFilters (reconcile a s))) \<and>
         (SetFilters.noAllergens f = None \<longrightarrow> \<not> FilterSet.noAllergens (activeFilters (reconcile a s))) \<and>
         (SetFilters.popular f = None \<longrightarrow> \<not> FilterSet.popular (activeFilters (reconcile a s))) \<and>
         (SetFilters.noCheese f = None \<longrightarrow> \<not> FilterSet.noCheese (activeFilters (reconcile a s))) \<and>
         (\<forall>b. SetFilters.vegetarian f = Some b \<longrightarrow> FilterSet.vegetarian (activeFilters (reconcile a s)) = b) \<and>
         (\<forall>b. SetFilters.vegan f = Some b \<longrightarrow> FilterSet.vegan (activeFilters (reconcile a s)) = b) \<and>
         (\<forall>b. SetFilters.halal f = Some b \<longrightarrow> FilterSet.halal (activeFilters (reconcile a s)) = b) \<and>
         (\<forall>b. SetFilters.noAllergens f = Some b \<longrightarrow> FilterSet.noAllergens (activeFilters (reconcile a s)) = b) \<and>
         (\<forall>b. SetFilters.popular f = Some b \<longrightarrow> FilterSet.popular (activeFilters (reconcile a s)) = b) \<and>
         (\<forall>b. SetFilters.noCheese f = Some b \<longrightarrow> FilterSet.noCheese (activeFilters (reconcile a s)) = b)"
proof -
  have "activeFilters (reconcile a s) = spread noFilters f"
    using assms by (rule reconcile_setFilters)
  then show ?thesis
    by (simp add: spread_def noFilters_def)
qed

text \<open>
  The example of the specification: \<^verbatim>\<open>{filters: {popular: true}}\<close> against a state with
  \<^verbatim>\<open>vegan = true\<close> gives \<^verbatim>\<open>popular = true\<close> and \<^verbatim>\<open>vegan = false\<close>.
\<close>

theorem reconcile_filters_reset_then_merge_witness:
  "FilterSet.vegan (activeFilters veganState) \<and>
   FilterSet.popular (activeFilters (reconcile
      (noActions\<lparr>setFilters := Some (noSetFilters\<lparr>SetFilters.popular := Some True\<rparr>)\<rparr>) veganState)) \<and>
   \<not> FilterSet.vegan (activeFilters (reconcile
      (noActions\<lparr>setFilters := Some (noSetFilters\<lparr>SetFilters.popular := Some True\<rparr>)\<rparr>) veganState))"
proof -
  have h: "setFilters (noActions\<lparr>setFilters := Some (noSetFilters\<lparr>SetFilters.popular := Some True\<rparr>)\<rparr>) =
             Some (noSetFilters\<lparr>SetFilters.popular := Some True\<rparr>)"
    by simp
  have v: "FilterSet.vegan (activeFilters veganState)"
    by (simp add: veganState_def)
  from reconcile_filters_reset_then_merge [OF h, of veganState] v
  show ?thesis by (simp add: noSetFilters_def spread_def noFilters_def)
qed

text \<open>
  C3, as the claim states it, fails: \<^verbatim>\<open>{customFilters: {withCheese: true}}\<close> against
  a state with \<^verbatim>\<open>vegan = true\<close> does not leave the filters as they were but resets them.
\<close>

theorem withCheese_untouched_counterexample:
  "FilterSet.vegan (activeFilters veganState) \<and>
   activeFilters (reconcile
      (noActions\<lparr>customFilters := Some (noCustomFilters\<lparr>withCheese := Some True\<rparr>)\<rparr>) veganState)
     = noFilters \<and>
   activeFilters (reconcile
      (noActions\<lparr>customFilters := Some (noCustomFilters\<lparr>withCheese := Some True\<rparr>)\<rparr>) veganState)
     \<noteq> activeFilters veganState"
  by (simp add: reconcile_def executeAIActions_def Let_def veganState_def noActions_def
           noCustomFilters_def noFilters_def)

text \<open>
  C3, amended. When \<^verbatim>\<open>withCheese\<close> is asserted, the reconciler forces the category to
  \<^verbatim>\<open>'all'\<close> and resets the filters to all-false; a \<^verbatim>\<open>setFilters\<close> object of the same
  action is then merged over that baseline. A \<^verbatim>\<open>customFilters\<close> object that does not
  assert \<^verbatim>\<open>withCheese\<close> has no effect, whatever \<^verbatim>\<open>withMeat\<close> and \<^verbatim>\<open>spicy\<close> are: the state
  and the timers are those of the action without it.
\<close>

theorem withCheese_resets_filters:
  assumes "customFilters a = Some cf"
  shows "(withCheese cf = Some True \<longrightarrow>
            currentCategory (reconcile a s) = ''all'' \<and>
            activeFilters (reconcile a s) =
              (case setFilters a of None \<Rightarrow> noFilters | Some f \<Rightarrow> spread noFilters f)) \<and>
         (withCheese cf \<noteq> Some True \<longrightarrow>
            executeAIActions a s = executeAIActions (a\<lparr>customFilters := None\<rparr>) s)"
  using assms
  by (cases "withCheese cf")
     (auto simp add: reconcile_def executeAIActions_def Let_def spread_def noFilters_def
           split: option.splits)

theorem withCheese_resets_filters_witness:
  "currentCategory (reconcile
      (noActions\<lparr>customFilters := Some (noCustomFilters\<lparr>withCheese := Some True\<rparr>)\<rparr>) veganState)
     = ''all'' \<and>
   activeFilters (reconcile
      (noActions\<lparr>customFilters := Some (noCustomFilters\<lparr>withCheese := Some True\<rparr>)\<rparr>) veganState)
     = noFilters \<and>
   executeAIActions
      (noActions\<lparr>customFilters := Some (noCustomFilters\<lparr>withMeat := Some True, CustomFilters.spicy := Some True\<rparr>)\<rparr>)
      veganState
     = (veganState, [])"
proof -
  have h1: "customFilters (noActions\<lparr>customFilters := Some (noCustomFilters\<lparr>withCheese := Some True\<rparr>)\<rparr>)
              = Some (noCustomFilters\<lparr>withCheese := Some True\<rparr>)"
    by simp
  have h2: "customFilters
              (noActions\<lparr>customFilters := Some (noCustomFilters\<lparr>withMeat := Some True, CustomFilters.spicy := Some True\<rparr>)\<rparr>)
              = Some (noCustomFilters\<lparr>withMeat := Some True, CustomFilters.spicy := Some True\<rparr>)"
    by simp
  have e: "executeAIActions noActions veganState = (veganState, [])"
    by (simp add: executeAIActions_def noActions_def)
  from withCheese_resets_filters [OF h1, of veganState]
       withCheese_resets_filters [OF h2, of veganState] e
  show ?thesis by (simp add: noCustomFilters_def noActions_def)
qed

text \<open>
  C8, as the claim states it, fails in three ways. The empty string is a category
  string, and the reconciler skips it. A category is overridden by \<^verbatim>\<open>'all'\<close> when the
  same action asserts \<^verbatim>\<open>withCheese\<close>. And \<^verbatim>\<open>constructor\<close> is not a key of the example
  menu, yet with a filter set the effect raises a \<^verbatim>\<open>TypeError\<close> on it instead of showing
  the empty sequence.
\<close>

theorem category_verbatim_counterexample:
  "currentCategory (reconcile (noActions\<lparr>filterCategory := Some ''''\<rparr>) veganState) = ''pizzas'' \<and>
   currentCategory (reconcile
      (noActions\<lparr>filterCategory := Some ''desserts'',
                 customFilters := Some (noCustomFilters\<lparr>withCheese := Some True\<rparr>)\<rparr>) veganState) = ''all'' \<and>
   ''constructor'' \<notin> fst ` set exampleMenu \<and>
   currentCategory (reconcile (noActions\<lparr>filterCategory := Some ''constructor''\<rparr>) veganState)
     = ''constructor'' \<and>
   visibleItems exampleMenu ''constructor''
      (activeFilters (reconcile (noActions\<lparr>filterCategory := Some ''constructor''\<rparr>) veganState))
     = Thrown TypeError"
  by (simp add: reconcile_def executeAIActions_def Let_def veganState_def noActions_def
           noCustomFilters_def noFilters_def exampleMenu_def visibleItems_def categoryItems_def
           objectPrototypeKeys_def)

text \<open>
  C8, amended. A non-empty category string of an action that does not assert
  \<^verbatim>\<open>withCheese\<close> becomes the category verbatim, checked against nothing. When it is
  neither \<^verbatim>\<open>'all'\<close>, nor a key of the menu, nor a member inherited from
  \<^verbatim>\<open>Object.prototype\<close>, the effect shows the empty sequence, whatever the filters are.
\<close>

theorem category_set_verbatim:
  assumes "filterCategory a = Some c" and "c \<noteq> []"
      and "\<forall>cf. customFilters a = Some cf \<longrightarrow> withCheese cf \<noteq> Some True"
  shows "currentCategory (reconcile a s) = c \<and>
         (c \<noteq> ''all'' \<and> c \<notin> fst ` set menu \<and> c \<notin> set objectPrototypeKeys \<longrightarrow>
            visibleItems menu (currentCategory (reconcile a s)) fs = Items [])"
proof -
  have cat: "currentCategory (reconcile a s) = c"
    using assms
    by (cases "customFilters a"; cases "setFilters a")
       (auto simp add: reconcile_def executeAIActions_def Let_def split: option.splits)
  have "visibleItems menu c fs = Items []"
    if "c \<noteq> ''all''" "c \<notin> fst ` set menu" "c \<notin> set objectPrototypeKeys"
  proof -
    from that have "map_of menu c = None" by (simp add: map_of_eq_None_iff)
    with that show ?thesis
      by (simp add: visibleItems_def categoryItems_def Let_def)
  qed
  with cat show ?thesis by simp
qed

theorem category_set_verbatim_witness:
  "currentCategory (reconcile (noActions\<lparr>filterCategory := Some ''sushis''\<rparr>) veganState) = ''sushis'' \<and>
   visibleItems exampleMenu
      (currentCategory (reconcile (noActions\<lparr>filterCategory := Some ''sushis''\<rparr>) veganState))
      (activeFilters veganState) = Items []"
proof -
  have h1: "filterCategory (noActions\<lparr>filterCategory := Some ''sushis''\<rparr>) = Some ''sushis''"
    by simp
  have h2: "''sushis'' \<noteq> []"
    by simp
  have h3: "\<forall>cf. customFilters (noActions\<lparr>filterCategory := Some ''sushis''\<rparr>) = Some cf
               \<longrightarrow> withCheese cf \<noteq> Some True"
    by (simp add: noActions_def)
  have h4: "''sushis'' \<noteq> ''all'' \<and> ''sushis'' \<notin> fst ` set exampleMenu \<and>
            ''sushis'' \<notin> set objectPrototypeKeys"
    by (simp add: exampleMenu_def objectPrototypeKeys_def)
  note w = category_set_verbatim [OF h1 h2 h3, of veganState exampleMenu "activeFilters veganState"]
  from w have "currentCategory (reconcile (noActions\<lparr>filterCategory := Some ''sushis''\<rparr>) veganState)
                 = ''sushis''"
    by (rule conjunct1)
  moreover from w h4
  have "visibleItems exampleMenu
          (currentCategory (reconcile (noActions\<lparr>filterCategory := Some ''sushis''\<rparr>) veganState))
          (activeFilters veganState) = Items []"
    by blast
  ultimately show ?thesis by (rule conjI)
qed

section \<open>Properties of the cleaning steps\<close>

lemma indexOf_split:
  assumes "c \<in> set s"
  shows "s = takeWhile (\<lambda>x. x \<noteq> c) s @ c # tl (dropWhile (\<lambda>x. x \<noteq> c) s)"
    and "indexOf s c = int (length (takeWhile (\<lambda>x. x \<noteq> c) s))"
proof -
  from assms have ne: "dropWhile (\<lambda>x. x \<noteq> c) s \<noteq> []" by (simp add: dropWhile_eq_Nil_conv) 
  then have "hd (dropWhile (\<lambda>x. x \<noteq> c) s) = c" using hd_dropWhile [of "\<lambda>x. x \<noteq> c" s] by simp
  with ne have "dropWhile (\<lambda>x. x \<noteq> c) s = c # tl (dropWhile (\<lambda>x. x \<noteq> c) s)"
    by (cases "dropWhile (\<lambda>x. x \<noteq> c) s") simp_all
  then show "s = takeWhile (\<lambda>x. x \<noteq> c) s @ c # tl (dropWhile (\<lambda>x. x \<noteq> c) s)"
    using takeWhile_dropWhile_id [of "\<lambda>x. x \<noteq> c" s] by simp
  show "indexOf s c = int (length (takeWhile (\<lambda>x. x \<noteq> c) s))"
    using assms by (simp add: indexOf_def)
qed

lemma lastIndexOf_split:
  assumes "c \<in> set s"
  shows "\<exists>front. s = front @ c # rev (takeWhile (\<lambda>x. x \<noteq> c) (rev s)) \<and>
           lastIndexOf s c = int (length front)"
proof -
  from assms have "c \<in> set (rev s)" by simp
  from indexOf_split(1) [OF this]
  obtain t where r: "rev s = takeWhile (\<lambda>x. x \<noteq> c) (rev s) @ c # t" by blast
  have "s = rev (rev s)" by simp
  also have "\<dots> = rev (takeWhile (\<lambda>x. x \<noteq> c) (rev s) @ c # t)"
    using r by simp
  finally have s: "s = rev t @ c # rev (takeWhile (\<lambda>x. x \<noteq> c) (rev s))"
    by simp
  have "length s = length (rev t) + 1 + length (takeWhile (\<lambda>x. x \<noteq> c) (rev s))"
    using arg_cong [OF s, of length] by simp
  then have "lastIndexOf s c = int (length (rev t))"
    using assms by (simp add: lastIndexOf_def)
  with s show ?thesis by blast
qed

lemma substring_mid:
  "substring (pre @ mid @ post) (int (length pre)) (int (length pre + length mid)) = mid"
  by (simp add: substring_def Let_def min_def max_def)

lemma sliceBraces_span:
  assumes "indexOf c CHR ''{'' \<noteq> - 1" and "lastIndexOf c CHR ''}'' \<noteq> - 1"
      and "indexOf c CHR ''{'' < lastIndexOf c CHR ''}''"
  shows "\<exists>pre post. c = pre @ sliceBraces c @ post \<and> int (length pre) = indexOf c CHR ''{'' \<and>
           CHR ''{'' \<notin> set pre \<and> CHR ''}'' \<notin> set post \<and>
           hd (sliceBraces c) = CHR ''{'' \<and> last (sliceBraces c) = CHR ''}''"
proof -
  let ?o = "CHR ''{''" and ?cl = "CHR ''}''"
  from assms(1) have o: "?o \<in> set c" by (auto simp: indexOf_def split: if_splits)
  from assms(2) have cl: "?cl \<in> set c" by (auto simp: lastIndexOf_def split: if_splits)
  define pre where "pre = takeWhile (\<lambda>x. x \<noteq> ?o) c"
  define post where "post = rev (takeWhile (\<lambda>x. x \<noteq> ?cl) (rev c))"
  have c1: "c = pre @ ?o # tl (dropWhile (\<lambda>x. x \<noteq> ?o) c)" and i: "indexOf c ?o = int (length pre)"
    using indexOf_split [OF o] by (simp_all add: pre_def)
  obtain front where c2: "c = front @ ?cl # post" and j: "lastIndexOf c ?cl = int (length front)"
    using lastIndexOf_split [OF cl] unfolding post_def by blast
  from assms(3) i j have lt: "length pre < length front" by simp
  have "pre = take (length pre) c" using c1 by (metis append_eq_conv_conj)
  also have "\<dots> = take (length pre) front" using c2 lt by (metis less_imp_le_nat take_append take_all_iff append_Nil2 diff_is_0_eq' take_0 c2)
  finally have "\<exists>mid. front = pre @ mid" by (metis append_take_drop_id)
  then obtain mid where front: "front = pre @ mid" by blast
  with lt have mid: "mid \<noteq> []" by auto
  have "pre @ ?o # tl (dropWhile (\<lambda>x. x \<noteq> ?o) c) = pre @ mid @ ?cl # post"
    using c1 c2 front by simp
  then have "hd mid = ?o" using mid by (cases mid) auto
  have c3: "c = pre @ (mid @ [?cl]) @ post" using c2 front by simp
  have "sliceBraces c = substring c (int (length pre)) (int (length front) + 1)"
    using assms i j by (simp add: sliceBraces_def Let_def)
  also have "\<dots> = substring (pre @ (mid @ [?cl]) @ post) (int (length pre)) (int (length pre + length (mid @ [?cl])))"
    using c3 front by (simp add: add.commute)
  also have "\<dots> = mid @ [?cl]" by (rule substring_mid)
  finally have sl: "sliceBraces c = mid @ [?cl]" .
  have "?o \<notin> set pre" unfolding pre_def by (metis (mono_tags, lifting) set_takeWhileD)
  moreover have "?cl \<notin> set post" unfolding post_def set_rev by (metis (mono_tags, lifting) set_takeWhileD)
  moreover have "hd (sliceBraces c) = ?o" using sl mid \<open>hd mid = ?o\<close> by simp
  moreover have "last (sliceBraces c) = ?cl" using sl by simp
  ultimately show ?thesis using c3 sl i by (intro exI [of _ pre] exI [of _ post]) simp
qed

lemma sliceBraces_no_later:
  assumes "CHR ''{'' \<in> set c" and "CHR ''}'' \<notin> set (dropWhile (\<lambda>x. x \<noteq> CHR ''{'') c)"
  shows "sliceBraces c = c"
proof (cases "CHR ''}'' \<in> set c")
  case False
  then show ?thesis by (simp add: sliceBraces_def lastIndexOf_def Let_def)
next
  case True
  let ?o = "CHR ''{''" and ?cl = "CHR ''}''"
  define pre where "pre = takeWhile (\<lambda>x. x \<noteq> ?o) c"
  define post where "post = rev (takeWhile (\<lambda>x. x \<noteq> ?cl) (rev c))"
  have i: "indexOf c ?o = int (length pre)"
    using indexOf_split [OF assms(1)] by (simp_all add: pre_def)
  obtain front where c2: "c = front @ ?cl # post" and j: "lastIndexOf c ?cl = int (length front)"
    using lastIndexOf_split [OF True] unfolding post_def by blast
  have "length front < length pre"
  proof (rule ccontr)
    assume "\<not> length front < length pre"
    then have le: "length pre \<le> length front" by simp
    have "dropWhile (\<lambda>x. x \<noteq> ?o) c = drop (length pre) c"
      unfolding pre_def by (simp add: dropWhile_eq_drop)
    also have "\<dots> = drop (length pre) front @ ?cl # post"
      using c2 le by (metis drop_append diff_is_0_eq drop_0)
    finally have "?cl \<in> set (dropWhile (\<lambda>x. x \<noteq> ?o) c)" by simp
    with assms(2) show False by simp
  qed
  with i j show ?thesis by (simp add: sliceBraces_def Let_def)
qed

section \<open>Properties of the chat endpoint\<close>

lemma getProp_nonnull: "v \<noteq> JNull \<Longrightarrow> \<exists>r. getProp v k = Inr r"
  by (cases v) simp_all

lemma copyIfTruthy_eq:
  "src \<noteq> JNull \<Longrightarrow>
   copyIfTruthy src k k' acts =
     Inr (case truthyField src k of None \<Rightarrow> acts | Some x \<Rightarrow> AList.update k' x acts)"
  by (cases src) (auto simp add: copyIfTruthy_def bindE_def truthyField_def split: option.splits)

lemma buildActions_eq:
  "v \<noteq> JNull \<Longrightarrow>
   buildActions v = Inr (case truthyField v ''actions'' of None \<Rightarrow> [] | Some pa \<Rightarrow> copied pa)"
proof -
  assume v: "v \<noteq> JNull"
  then obtain a where a: "getProp v ''actions'' = Inr a" using getProp_nonnull by blast
  show ?thesis
  proof (cases a)
    case None
    with a show ?thesis by (simp add: buildActions_def bindE_def truthyField_def)
  next
    case (Some pa)
    show ?thesis
    proof (cases "truthy pa")
      case False
      with a Some show ?thesis by (simp add: buildActions_def bindE_def truthyField_def)
    next
      case True
      then have "pa \<noteq> JNull" by auto
      with a Some True show ?thesis
        by (simp add: buildActions_def bindE_def truthyField_def copyIfTruthy_eq copied_def
                 split: option.splits)
    qed
  qed
qed

lemma map_of_copied:
  "map_of (copied pa) k =
     (if k = ''filterCategory'' then truthyField pa ''category''
      else if k = ''setFilters'' then truthyField pa ''filters''
      else if k = ''customFilters'' then truthyField pa ''customFilters''
      else if k = ''recommendedItems'' then truthyField pa ''recommendedItems''
      else None)"
  by (simp add: copied_def update_conv' split: option.splits)

lemma distinct_copied: "distinct (map fst (copied pa))"
  by (simp add: copied_def distinct_update split: option.splits)

lemma buildReply_eq:
  "v \<noteq> JNull \<Longrightarrow>
   buildReply v =
     Success \<lparr>response = (case getProp v ''response'' of Inr r \<Rightarrow> r | Inl e \<Rightarrow> None),
              actions = (case truthyField v ''actions'' of
                           None \<Rightarrow> None
                         | Some pa \<Rightarrow> if copied pa = [] then None else Some (copied pa))\<rparr>"
  using getProp_nonnull [of v "''response''"]
  by (auto simp add: buildReply_def buildActions_eq bindE_def split: option.splits)

lemma buildReply_null: "buildReply JNull = Failure 500 ''Erreur interne du serveur''"
  by (simp add: buildReply_def buildActions_def bindE_def)

lemma unbalanced_undecodable: "JSON_parse (sliceBraces (stripNoise unbalancedText)) = None"
  by code_simp

text \<open>
  C2, as the claim states it, fails at the empty model response. The decoder fails on
  the empty text, yet the endpoint never reaches the parsing block: the guard
  \<^verbatim>\<open>if (!assistantResponse)\<close> answers 500, which is not the text-only fallback.
\<close>

theorem empty_response_counterexample:
  "JSON_parse (sliceBraces (stripNoise [])) = None \<and>
   chatReply JSON_parse (Some []) = Failure 500 (''R'' @ [CHR 0xE9] @ ''ponse IA vide'') \<and>
   chatReply JSON_parse (Some []) \<noteq> fallback []"
  by code_simp

text \<open>
  C2, amended. For every model response that is not empty and on which the decoder
  fails, the endpoint does not raise: it answers with status 200, the whole original
  text as \<^verbatim>\<open>response\<close> (not the cleaned or sliced text) and no \<^verbatim>\<open>actions\<close>. This holds
  for every decoder; the parsing block alone gives that answer for the empty text too.
\<close>

theorem decode_failure_falls_back:
  assumes "decode (sliceBraces (stripNoise raw)) = None"
  shows "parseReply decode raw = Success \<lparr>response = Some (JStr raw), actions = None\<rparr> \<and>
         (raw \<noteq> [] \<longrightarrow>
            chatReply decode (Some raw) = Success \<lparr>response = Some (JStr raw), actions = None\<rparr>)"
  using assms by (simp add: chatReply_def parseReply_def fallback_def)

text \<open>The unbalanced example of the specification, with the reference decoder.\<close>

theorem decode_failure_falls_back_witness:
  "JSON_parse (sliceBraces (stripNoise unbalancedText)) = None \<and>
   parseReply JSON_parse unbalancedText =
     Success \<lparr>response = Some (JStr unbalancedText), actions = None\<rparr> \<and>
   chatReply JSON_parse (Some unbalancedText) =
     Success \<lparr>response = Some (JStr unbalancedText), actions = None\<rparr>"
proof -
  have n: "unbalancedText \<noteq> []"
    by (simp add: unbalancedText_def)
  from decode_failure_falls_back [of JSON_parse unbalancedText, OF unbalanced_undecodable] n
       unbalanced_undecodable
  show ?thesis by blast
qed

text \<open>
  C4, as the claim states it, fails. A response without the \<^verbatim>\<open>response\<close> member decodes,
  and the endpoint answers with no \<^verbatim>\<open>response\<close> and with the action; a response whose
  \<^verbatim>\<open>response\<close> is the number 42 decodes, and the endpoint answers with that number.
  Neither answer is the text-only fallback.
\<close>

theorem malformed_response_counterexample:
  "parseReply JSON_parse noResponseText =
     Success \<lparr>response = None, actions = Some [(''filterCategory'', JStr ''pizzas'')]\<rparr> \<and>
   parseReply JSON_parse noResponseText \<noteq> fallback noResponseText \<and>
   parseReply JSON_parse numberResponseText =
     Success \<lparr>response = Some (JNum 42), actions = None\<rparr> \<and>
   parseReply JSON_parse numberResponseText \<noteq> fallback numberResponseText"
  by code_simp

text \<open>
  C4, amended. When the sliced text decodes to a value other than \<^verbatim>\<open>null\<close>, the endpoint
  answers with status 200 and passes the \<^verbatim>\<open>response\<close> member through as it is: absent
  when the decoded value has none, the value itself when it is not a string. The
  answer is the one built from the decoded value, actions included, and when the
  member is missing or not a string it is not the fallback.
\<close>

theorem decoded_response_passed_through:
  assumes "decode (sliceBraces (stripNoise raw)) = Some v" and "v \<noteq> JNull"
  shows "(\<exists>r. parseReply decode raw = Success r \<and>
              getProp v ''response'' = Inr (response r) \<and>
              parseReply decode raw = buildReply v) \<and>
         ((\<forall>s. getProp v ''response'' \<noteq> Inr (Some (JStr s))) \<longrightarrow>
              parseReply decode raw \<noteq> fallback raw)"
proof -
  obtain x where x: "getProp v ''response'' = Inr x"
    using getProp_nonnull [OF assms(2)] by blast
  have p: "parseReply decode raw = buildReply v" using assms by (simp add: parseReply_def)
  from x have b: "\<exists>acts. buildReply v = Success \<lparr>response = x, actions = acts\<rparr>"
    using assms(2) by (simp add: buildReply_eq)
  then obtain acts where acts: "buildReply v = Success \<lparr>response = x, actions = acts\<rparr>" by blast
  have "\<exists>r. parseReply decode raw = Success r \<and> getProp v ''response'' = Inr (response r) \<and>
          parseReply decode raw = buildReply v"
    using p acts x by simp
  moreover have "parseReply decode raw \<noteq> fallback raw"
    if "\<forall>s. getProp v ''response'' \<noteq> Inr (Some (JStr s))"
    using that p acts x by (auto simp add: fallback_def)
  ultimately show ?thesis by blast
qed

lemma numberResponse_decoded:
  "JSON_parse (sliceBraces (stripNoise numberResponseText)) = Some (JObj [(''response'', JNum 42)])"
  by code_simp

theorem decoded_response_passed_through_witness:
  "JSON_parse (sliceBraces (stripNoise numberResponseText)) = Some (JObj [(''response'', JNum 42)]) \<and>
   (\<exists>r. parseReply JSON_parse numberResponseText = Success r \<and> response r = Some (JNum 42)) \<and>
   parseReply JSON_parse numberResponseText \<noteq> fallback numberResponseText"
proof -
  have n: "JObj [(''response'', JNum 42)] \<noteq> JNull"
    by simp
  note w = decoded_response_passed_through [of JSON_parse numberResponseText, OF numberResponse_decoded n]
  from w have "\<exists>r. parseReply JSON_parse numberResponseText = Success r \<and> response r = Some (JNum 42)"
    by auto
  moreover from w have "parseReply JSON_parse numberResponseText \<noteq> fallback numberResponseText"
    by simp
  ultimately show ?thesis using numberResponse_decoded by blast
qed

text \<open>
  C5, as the claim states it, fails in its last part. The text \<^verbatim>\<open>"a{b"\<close> has a first
  \<^verbatim>\<open>{\<close> and no \<^verbatim>\<open>}\<close> after it, no slice occurs, and the unsliced text is a JSON string:
  the decoder succeeds and the answer is not the fallback.
\<close>

theorem unbalanced_fallback_counterexample:
  "CHR ''{'' \<in> set (stripNoise quotedText) \<and>
   CHR ''}'' \<notin> set (dropWhile (\<lambda>x. x \<noteq> CHR ''{'') (stripNoise quotedText)) \<and>
   sliceBraces (stripNoise quotedText) = quotedText \<and>
   JSON_parse (sliceBraces (stripNoise quotedText)) = Some (JStr ''a{b'') \<and>
   parseReply JSON_parse quotedText = Success \<lparr>response = None, actions = None\<rparr> \<and>
   parseReply JSON_parse quotedText \<noteq> fallback quotedText"
  by code_simp

text \<open>
  C5, amended. When the cleaned text has a first \<^verbatim>\<open>{\<close> and a last \<^verbatim>\<open>}\<close> and the first
  precedes the last, the text handed to the decoder is exactly the span from the one
  to the other: the cleaned text is a prefix without \<^verbatim>\<open>{\<close>, the span, and a suffix
  without \<^verbatim>\<open>}\<close>. When the cleaned text has a \<^verbatim>\<open>{\<close> and no \<^verbatim>\<open>}\<close> after the first one,
  no slice occurs: the decoder receives the whole cleaned text, and the fallback is
  the answer when the decoder fails on it.
\<close>

theorem brace_span_is_decoded:
  fixes decode :: "string \<Rightarrow> json option"
  shows "(indexOf (stripNoise raw) CHR ''{'' \<noteq> - 1 \<and> lastIndexOf (stripNoise raw) CHR ''}'' \<noteq> - 1 \<and>
          indexOf (stripNoise raw) CHR ''{'' < lastIndexOf (stripNoise raw) CHR ''}'' \<longrightarrow>
            (\<exists>pre span post.
               stripNoise raw = pre @ span @ post \<and>
               CHR ''{'' \<notin> set pre \<and> hd span = CHR ''{'' \<and>
               last span = CHR ''}'' \<and> CHR ''}'' \<notin> set post \<and>
               parseReply decode raw =
                 (case decode span of None \<Rightarrow> fallback raw | Some v \<Rightarrow> buildReply v))) \<and>
         (CHR ''{'' \<in> set (stripNoise raw) \<and>
          CHR ''}'' \<notin> set (dropWhile (\<lambda>x. x \<noteq> CHR ''{'') (stripNoise raw)) \<longrightarrow>
            parseReply decode raw =
              (case decode (stripNoise raw) of None \<Rightarrow> fallback raw | Some v \<Rightarrow> buildReply v))"
proof (intro conjI impI)
  assume a: "indexOf (stripNoise raw) CHR ''{'' \<noteq> - 1 \<and> lastIndexOf (stripNoise raw) CHR ''}'' \<noteq> - 1 \<and>
          indexOf (stripNoise raw) CHR ''{'' < lastIndexOf (stripNoise raw) CHR ''}''"
  then obtain pre post where
    "stripNoise raw = pre @ sliceBraces (stripNoise raw) @ post"
    "CHR ''{'' \<notin> set pre" "CHR ''}'' \<notin> set post"
    "hd (sliceBraces (stripNoise raw)) = CHR ''{''" "last (sliceBraces (stripNoise raw)) = CHR ''}''"
    using sliceBraces_span [of "stripNoise raw"] by blast
  then show "\<exists>pre span post.
               stripNoise raw = pre @ span @ post \<and>
               CHR ''{'' \<notin> set pre \<and> hd span = CHR ''{'' \<and>
               last span = CHR ''}'' \<and> CHR ''}'' \<notin> set post \<and>
               parseReply decode raw =
                 (case decode span of None \<Rightarrow> fallback raw | Some v \<Rightarrow> buildReply v)"
    by (intro exI [of _ pre] exI [of _ "sliceBraces (stripNoise raw)"] exI [of _ post])
       (simp add: parseReply_def)
next
  assume "CHR ''{'' \<in> set (stripNoise raw) \<and>
          CHR ''}'' \<notin> set (dropWhile (\<lambda>x. x \<noteq> CHR ''{'') (stripNoise raw))"
  then have "sliceBraces (stripNoise raw) = stripNoise raw"
    using sliceBraces_no_later by blast
  then show "parseReply decode raw =
              (case decode (stripNoise raw) of None \<Rightarrow> fallback raw | Some v \<Rightarrow> buildReply v)"
    by (simp add: parseReply_def)
qed

lemma proseText_braces:
  "indexOf (stripNoise proseText) CHR ''{'' \<noteq> - 1 \<and>
   lastIndexOf (stripNoise proseText) CHR ''}'' \<noteq> - 1 \<and>
   indexOf (stripNoise proseText) CHR ''{'' < lastIndexOf (stripNoise proseText) CHR ''}''"
  by code_simp

lemma unbalancedText_braces:
  "CHR ''{'' \<in> set (stripNoise unbalancedText) \<and>
   CHR ''}'' \<notin> set (dropWhile (\<lambda>x. x \<noteq> CHR ''{'') (stripNoise unbalancedText))"
  by code_simp

lemma unbalancedText_unsliced: "JSON_parse (stripNoise unbalancedText) = None"
  by code_simp

lemma proseText_reply:
  "parseReply JSON_parse proseText =
     Success \<lparr>response = Some (JStr ''ok''),
              actions = Some [(''filterCategory'', JStr ''pizzas'')]\<rparr>"
  by code_simp

text \<open>
  The two examples of the specification, with the reference decoder: the prose around
  the braces is ignored and the category \<^verbatim>\<open>pizzas\<close> arrives; the unbalanced text is
  decoded unsliced, fails, and the fallback is taken.
\<close>

theorem brace_span_is_decoded_witness:
  "(\<exists>pre span post.
      stripNoise proseText = pre @ span @ post \<and>
      CHR ''{'' \<notin> set pre \<and> hd span = CHR ''{'' \<and> last span = CHR ''}'' \<and> CHR ''}'' \<notin> set post \<and>
      (case JSON_parse span of None \<Rightarrow> fallback proseText | Some v \<Rightarrow> buildReply v) =
         Success \<lparr>response = Some (JStr ''ok''),
                  actions = Some [(''filterCategory'', JStr ''pizzas'')]\<rparr>) \<and>
   parseReply JSON_parse unbalancedText = fallback unbalancedText"
proof -
  from brace_span_is_decoded [of proseText JSON_parse] proseText_braces
  have "\<exists>pre span post.
      stripNoise proseText = pre @ span @ post \<and>
      CHR ''{'' \<notin> set pre \<and> hd span = CHR ''{'' \<and> last span = CHR ''}'' \<and> CHR ''}'' \<notin> set post \<and>
      parseReply JSON_parse proseText =
        (case JSON_parse span of None \<Rightarrow> fallback proseText | Some v \<Rightarrow> buildReply v)"
    by blast
  then have 1: "\<exists>pre span post.
      stripNoise proseText = pre @ span @ post \<and>
      CHR ''{'' \<notin> set pre \<and> hd span = CHR ''{'' \<and> last span = CHR ''}'' \<and> CHR ''}'' \<notin> set post \<and>
      (case JSON_parse span of None \<Rightarrow> fallback proseText | Some v \<Rightarrow> buildReply v) =
         Success \<lparr>response = Some (JStr ''ok''),
                  actions = Some [(''filterCategory'', JStr ''pizzas'')]\<rparr>"
    unfolding proseText_reply by metis
  from brace_span_is_decoded [of unbalancedText JSON_parse] unbalancedText_braces
  have "parseReply JSON_parse unbalancedText =
          (case JSON_parse (stripNoise unbalancedText) of
             None \<Rightarrow> fallback unbalancedText | Some v \<Rightarrow> buildReply v)"
    by blast
  then have 2: "parseReply JSON_parse unbalancedText = fallback unbalancedText"
    by (simp add: unbalancedText_unsliced)
  from 1 2 show ?thesis by (rule conjI)
qed

text \<open>
  C10. When the sliced text decodes, the endpoint answers 500 if the value is
  \<^verbatim>\<open>null\<close>; otherwise it answers 200 with an \<^verbatim>\<open>actions\<close> object built from the decoded
  \<^verbatim>\<open>actions\<close> member alone: \<^verbatim>\<open>filterCategory\<close>, \<^verbatim>\<open>setFilters\<close>, \<^verbatim>\<open>customFilters\<close> and
  \<^verbatim>\<open>recommendedItems\<close> hold the truthy \<^verbatim>\<open>category\<close>, \<^verbatim>\<open>filters\<close>, \<^verbatim>\<open>customFilters\<close> and
  \<^verbatim>\<open>recommendedItems\<close> of that member, and there is no other key: in particular
  \<^verbatim>\<open>showItems\<close> is never forwarded. When nothing was copied the \<^verbatim>\<open>actions\<close> field of the
  answer is absent, not an empty object.
\<close>

theorem actions_copy_four_fields_only:
  assumes "decode (sliceBraces (stripNoise raw)) = Some v"
  shows "(v = JNull \<longrightarrow> parseReply decode raw = Failure 500 ''Erreur interne du serveur'') \<and>
         (v \<noteq> JNull \<longrightarrow>
            (\<exists>r built. parseReply decode raw = Success r \<and>
               actions r = (if built = [] then None else Some built) \<and>
               distinct (map fst built) \<and>
               map_of built ''filterCategory'' =
                 (case truthyField v ''actions'' of None \<Rightarrow> None | Some pa \<Rightarrow> truthyField pa ''category'') \<and>
               map_of built ''setFilters'' =
                 (case truthyField v ''actions'' of None \<Rightarrow> None | Some pa \<Rightarrow> truthyField pa ''filters'') \<and>
               map_of built ''customFilters'' =
                 (case truthyField v ''actions'' of None \<Rightarrow> None | Some pa \<Rightarrow> truthyField pa ''customFilters'') \<and>
               map_of built ''recommendedItems'' =
                 (case truthyField v ''actions'' of None \<Rightarrow> None | Some pa \<Rightarrow> truthyField pa ''recommendedItems'') \<and>
               (\<forall>k. k \<notin> {''filterCategory'', ''setFilters'', ''customFilters'', ''recommendedItems''}
                      \<longrightarrow> map_of built k = None) \<and>
               map_of built ''showItems'' = None))"
proof (intro conjI impI)
  assume "v = JNull"
  with assms show "parseReply decode raw = Failure 500 ''Erreur interne du serveur''"
    by (simp add: parseReply_def buildReply_null)
next
  assume v: "v \<noteq> JNull"
  define built where "built = (case truthyField v ''actions'' of None \<Rightarrow> [] | Some pa \<Rightarrow> copied pa)"
  have "parseReply decode raw = buildReply v" using assms by (simp add: parseReply_def)
  then have 1: "parseReply decode raw =
      Success \<lparr>response = (case getProp v ''response'' of Inr r \<Rightarrow> r | Inl e \<Rightarrow> None),
               actions = (if built = [] then None else Some built)\<rparr>"
    using v by (simp add: buildReply_eq built_def split: option.splits)
  have 2: "distinct (map fst built)"
    by (simp add: built_def distinct_copied split: option.splits)
  have 3: "map_of built k =
     (case truthyField v ''actions'' of
        None \<Rightarrow> None
      | Some pa \<Rightarrow>
          if k = ''filterCategory'' then truthyField pa ''category''
          else if k = ''setFilters'' then truthyField pa ''filters''
          else if k = ''customFilters'' then truthyField pa ''customFilters''
          else if k = ''recommendedItems'' then truthyField pa ''recommendedItems''
          else None)" for k
    by (simp add: built_def map_of_copied split: option.splits)
  show "\<exists>r built. parseReply decode raw = Success r \<and>
               actions r = (if built = [] then None else Some built) \<and>
               distinct (map fst built) \<and>
               map_of built ''filterCategory'' =
                 (case truthyField v ''actions'' of None \<Rightarrow> None | Some pa \<Rightarrow> truthyField pa ''category'') \<and>
               map_of built ''setFilters'' =
                 (case truthyField v ''actions'' of None \<Rightarrow> None | Some pa \<Rightarrow> truthyField pa ''filters'') \<and>
               map_of built ''customFilters'' =
                 (case truthyField v ''actions'' of None \<Rightarrow> None | Some pa \<Rightarrow> truthyField pa ''customFilters'') \<and>
               map_of built ''recommendedItems'' =
                 (case truthyField v ''actions'' of None \<Rightarrow> None | Some pa \<Rightarrow> truthyField pa ''recommendedItems'') \<and>
               (\<forall>k. k \<notin> {''filterCategory'', ''setFilters'', ''customFilters'', ''recommendedItems''}
                      \<longrightarrow> map_of built k = None) \<and>
               map_of built ''showItems'' = None"
    apply (rule exI [of _ "\<lparr>response = (case getProp v ''response'' of Inr r \<Rightarrow> r | Inl e \<Rightarrow> None),
               actions = (if built = [] then None else Some built)\<rparr>"])
    apply (rule exI [of _ built])
    apply (intro conjI)
            apply (rule 1)
           apply simp
          apply (rule 2)
         apply (simp add: 3 split: option.splits)
        apply (simp add: 3 split: option.splits)
       apply (simp add: 3 split: option.splits)
      apply (simp add: 3 split: option.splits)
     apply (simp add: 3 split: option.splits)
    apply (simp add: 3 split: option.splits)
    done
qed

lemma showItemsText_decoded:
  "JSON_parse (sliceBraces (stripNoise showItemsText)) =
     Some (JObj [(''response'', JStr ''ok''),
                 (''actions'', JObj [(''category'', JStr ''pizzas''),
                                     (''showItems'', JArr [JNum 1, JNum 2])])])"
  by code_simp

lemma onlyShowItemsText_decoded:
  "JSON_parse (sliceBraces (stripNoise onlyShowItemsText)) =
     Some (JObj [(''response'', JStr ''ok''),
                 (''actions'', JObj [(''showItems'', JArr [JNum 1, JNum 2])])])"
  by code_simp

lemma nullText_decoded: "JSON_parse (sliceBraces (stripNoise nullText)) = Some JNull"
  by code_simp

text \<open>
  A response that asks for a category and lists \<^verbatim>\<open>showItems\<close>: only the category is
  forwarded. A response that lists \<^verbatim>\<open>showItems\<close> alone: the answer has no \<^verbatim>\<open>actions\<close>.
  The response \<^verbatim>\<open>null\<close>: the answer is the error 500.
\<close>

theorem actions_copy_four_fields_only_witness:
  "(\<exists>r built. parseReply JSON_parse showItemsText = Success r \<and>
      actions r = (if built = [] then None else Some built) \<and>
      map_of built ''filterCategory'' = Some (JStr ''pizzas'') \<and>
      map_of built ''showItems'' = None) \<and>
   (\<exists>r. parseReply JSON_parse onlyShowItemsText = Success r \<and> actions r = None) \<and>
   parseReply JSON_parse nullText = Failure 500 ''Erreur interne du serveur''"
proof -
  let ?pa = "JObj [(''category'', JStr ''pizzas''), (''showItems'', JArr [JNum 1, JNum 2])]"
  let ?v = "JObj [(''response'', JStr ''ok''), (''actions'', ?pa)]"
  have n: "?v \<noteq> JNull"
    by simp
  have a: "truthyField ?v ''actions'' = Some ?pa"
    by (simp add: truthyField_def)
  have c: "truthyField ?pa ''category'' = Some (JStr ''pizzas'')"
    by (simp add: truthyField_def)
  from actions_copy_four_fields_only [of JSON_parse showItemsText, OF showItemsText_decoded]
  have "?v \<noteq> JNull \<longrightarrow>
     (\<exists>r built. parseReply JSON_parse showItemsText = Success r \<and>
        actions r = (if built = [] then None else Some built) \<and>
        distinct (map fst built) \<and>
        map_of built ''filterCategory'' =
          (case truthyField ?v ''actions'' of None \<Rightarrow> None | Some pa \<Rightarrow> truthyField pa ''category'') \<and>
        map_of built ''setFilters'' =
          (case truthyField ?v ''actions'' of None \<Rightarrow> None | Some pa \<Rightarrow> truthyField pa ''filters'') \<and>
        map_of built ''customFilters'' =
          (case truthyField ?v ''actions'' of None \<Rightarrow> None | Some pa \<Rightarrow> truthyField pa ''customFilters'') \<and>
        map_of built ''recommendedItems'' =
          (case truthyField ?v ''actions'' of None \<Rightarrow> None | Some pa \<Rightarrow> truthyField pa ''recommendedItems'') \<and>
        (\<forall>k. k \<notin> {''filterCategory'', ''setFilters'', ''customFilters'', ''recommendedItems''}
               \<longrightarrow> map_of built k = None) \<and>
        map_of built ''showItems'' = None)"
    by (rule conjunct2)
  with n obtain r built where
    "parseReply JSON_parse showItemsText = Success r"
    "actions r = (if built = [] then None else Some built)"
    "map_of built ''filterCategory'' =
       (case truthyField ?v ''actions'' of None \<Rightarrow> None | Some pa \<Rightarrow> truthyField pa ''category'')"
    "map_of built ''showItems'' = None"
    by (elim impE exE conjE) assumption
  then have 1: "\<exists>r built. parseReply JSON_parse showItemsText = Success r \<and>
      actions r = (if built = [] then None else Some built) \<and>
      map_of built ''filterCategory'' = Some (JStr ''pizzas'') \<and>
      map_of built ''showItems'' = None"
    unfolding a c option.case by (intro exI conjI)
  have "parseReply JSON_parse onlyShowItemsText =
          Success \<lparr>response = Some (JStr ''ok''), actions = None\<rparr>"
    by code_simp
  then have 2: "\<exists>r. parseReply JSON_parse onlyShowItemsText = Success r \<and> actions r = None"
    by simp
  from actions_copy_four_fields_only [of JSON_parse nullText, OF nullText_decoded]
  have 3: "parseReply JSON_parse nullText = Failure 500 ''Erreur interne du serveur''"
    by simp
  from 1 2 3 show ?thesis by (intro conjI)
qed

section \<open>Properties of the transcription endpoint\<close>

lemma dropWhile_all_iff: "(\<forall>c \<in> set (dropWhile P s). P c) \<longleftrightarrow> (\<forall>c \<in> set s. P c)"
proof
  assume a: "\<forall>c \<in> set (dropWhile P s). P c"
  have "dropWhile P s = []"
  proof (cases "dropWhile P s")
    case (Cons x xs)
    then have "\<not> P x" using hd_dropWhile [of P s] by simp
    with Cons a show ?thesis by simp
  qed simp
  then show "\<forall>c \<in> set s. P c" by (simp add: dropWhile_eq_Nil_conv)
next
  assume "\<forall>c \<in> set s. P c"
  then show "\<forall>c \<in> set (dropWhile P s). P c" by (meson set_dropWhileD)
qed

lemma trim_Nil_iff: "trim s = [] \<longleftrightarrow> (\<forall>c \<in> set s. isSpace c)"
proof -
  have "trim s = [] \<longleftrightarrow> dropWhile isSpace (rev (dropWhile isSpace s)) = []"
    by (simp add: trim_def)
  also have "\<dots> \<longleftrightarrow> (\<forall>c \<in> set (dropWhile isSpace s). isSpace c)"
    unfolding dropWhile_eq_Nil_conv by simp
  also have "\<dots> \<longleftrightarrow> (\<forall>c \<in> set s. isSpace c)"
    by (rule dropWhile_all_iff)
  finally show ?thesis .
qed

lemma noSpeech_neq:
  "noSpeechDetected \<noteq> ''Erreur lors de la transcription''"
  "noSpeechDetected \<noteq> ''Erreur interne du serveur''"
  "noSpeechDetected \<noteq> ''Erreur de fichier temporaire''"
  "noSpeechDetected \<noteq> ''Service temporairement indisponible''"
  by (simp_all add: noSpeechDetected_def)

lemma transcribeCatch_not_noSpeech: "transcribeCatch m \<noteq> Failure code noSpeechDetected"
  using noSpeech_neq by (simp add: transcribeCatch_def split: option.splits)



end
